theory Spec2Isabelle
  imports Main
begin

section \<open>Text formatting of Python integers\<close>

text \<open>
  The generator interpolates the VLAN id twice, in \<^verbatim>\<open>f"vlan {vlan_id}"\<close> and in
  \<^verbatim>\<open>f" name VLAN_{vlan_id:03d}"\<close>. Python integers are unbounded, so the id is an
  \<^typ>\<open>int\<close>; a string is a list of characters.
\<close>

text \<open>The character of one decimal digit, \<open>n < 10\<close>.\<close>

definition digit_char :: "nat \<Rightarrow> char" where
  "digit_char n = ''0123456789'' ! n"

text \<open>The decimal digits of a natural number, most significant first, no leading zero.\<close>

function str_nat :: "nat \<Rightarrow> string" where
  "str_nat n = (if n < 10 then [digit_char n] else str_nat (n div 10) @ [digit_char (n mod 10)])"
  by pat_completeness auto
termination
  by (relation "measure (\<lambda>n. n)") auto

declare str_nat.simps [simp del]

text \<open>The sign that Python prints in front of the digits: a minus for a negative number.\<close>

definition sign_str :: "int \<Rightarrow> string" where
  "sign_str i = (if i < 0 then ''-'' else [])"

text \<open>\<^verbatim>\<open>str(i)\<close>, which is also what \<^verbatim>\<open>f"{i}"\<close> yields for an integer.\<close>

definition str_int :: "int \<Rightarrow> string" where
  "str_int i = sign_str i @ str_nat (nat \<bar>i\<bar>)"

text \<open>
  \<^verbatim>\<open>f"{i:03d}"\<close>: format specification \<^verbatim>\<open>03d\<close> is fill character \<^verbatim>\<open>0\<close> with
  sign-aware alignment and minimum width 3. The sign comes first, then as many zeros as the
  sign and the digits leave of the three columns, then the digits. Nothing is cut off.
\<close>

definition format_03d :: "int \<Rightarrow> string" where
  "format_03d i =
     (let sign = sign_str i; digits = str_nat (nat \<bar>i\<bar>)
      in sign @ replicate (3 - (length sign + length digits)) CHR ''0'' @ digits)"


section \<open>The VLAN configuration generator\<close>

text \<open>
  \<^verbatim>\<open>generate_vlan_configurations(device_name, vlans_range=(5, 10))\<close> builds the list
  \<^verbatim>\<open>configs\<close> by appending: two header lines, three lines for each id of
  \<^verbatim>\<open>range(start_vlan, end_vlan + 1)\<close>, three footer lines. The device name is the text
  that the interpolation \<^verbatim>\<open>{device_name}\<close> yields, the name itself for a \<^verbatim>\<open>str\<close>.
\<close>

type_synonym vlan_range = "int \<times> int"

text \<open>The three appends of the loop body for one \<^verbatim>\<open>vlan_id\<close>.\<close>

definition vlan_block :: "int \<Rightarrow> string list" where
  "vlan_block vlan_id =
     [''vlan '' @ str_int vlan_id,
      '' name VLAN_'' @ format_03d vlan_id,
      '' exit'']"

text \<open>
  The \<^verbatim>\<open>for vlan_id in range(vlan_id, stop)\<close> loop, with the list built so far: the
  range is empty as soon as \<open>stop \<le> vlan_id\<close>.
\<close>

function vlan_loop :: "int \<Rightarrow> int \<Rightarrow> string list \<Rightarrow> string list" where
  "vlan_loop vlan_id stop configs =
     (if vlan_id < stop then vlan_loop (vlan_id + 1) stop (configs @ vlan_block vlan_id)
      else configs)"
  by pat_completeness auto
termination
  by (relation "measure (\<lambda>(vlan_id, stop, configs). nat (stop - vlan_id))") auto

declare vlan_loop.simps [simp del]

definition generate_vlan_configurations :: "string \<Rightarrow> vlan_range \<Rightarrow> string list" where
  "generate_vlan_configurations device_name vlans_range =
     (let (start_vlan, end_vlan) = vlans_range;
          configs = [];
          configs = configs @ [''! VLAN Configuration for '' @ device_name];
          configs = configs @ [''configure terminal''];
          configs = vlan_loop start_vlan (end_vlan + 1) configs;
          configs = configs @ [''end''];
          configs = configs @ [''write memory''];
          configs = configs @ ['''']
      in configs)"


section \<open>Python values, errors and the world around the program\<close>

text \<open>
  The inventory is whatever \<^verbatim>\<open>yaml.safe_load\<close> builds: \<^verbatim>\<open>None\<close>, a \<^verbatim>\<open>bool\<close>, an
  \<^verbatim>\<open>int\<close>, a \<^verbatim>\<open>str\<close>, a list or a dict. A dict is an association list read with
  \<^const>\<open>map_of\<close>. Floats, timestamps, binary data and sets are not modelled.
\<close>

datatype pyval =
    PNone
  | PBool bool
  | PInt int
  | PStr string
  | PList "pyval list"
  | PDict "(pyval \<times> pyval) list"

text \<open>
  The exceptions that can leave the program. The last four come from the file system when a
  directory is made or a file is opened for writing. \<open>Uncaught\<close> carries the text of an
  exception raised while the inventory is opened, other than \<^verbatim>\<open>FileNotFoundError\<close>.
\<close>

datatype py_error =
    AttributeError
  | TypeError
  | KeyError
  | Uncaught string
  | FileExistsError
  | FileNotFoundError
  | IsADirectoryError
  | NotADirectoryError

text \<open>
  What opening a path for reading and handing the file to \<^verbatim>\<open>yaml.safe_load\<close> comes to:
  the file is absent, \<^verbatim>\<open>open\<close> fails otherwise, the parser raises \<^verbatim>\<open>yaml.YAMLError\<close>
  (with its message), or the parser returns a value.
\<close>

datatype source_outcome =
    NotFound
  | OpenFails string
  | ParseFails string
  | Parsed pyval

text \<open>
  A place in the file system is the list of names that leads to it from the root. The world
  of one run holds the inventory source, the working directory, the directories and the
  regular files that exist (with their content), and the lines printed, oldest first. The
  root is a directory without being listed. What reading the inventory yields is given by
  the source alone. Symbolic links, permissions and full disks are outside the model.
\<close>

type_synonym location = "string list"

record world =
  source :: "string \<Rightarrow> source_outcome"
  cwd :: location
  dirs :: "location set"
  files :: "location \<Rightarrow> string option"
  console :: "string list"

definition py_print :: "string \<Rightarrow> world \<Rightarrow> world" where
  "py_print s w = w\<lparr>console := console w @ [s]\<rparr>"

text \<open>
  \<^verbatim>\<open>f"{v}"\<close> for a value of the inventory. The text of a list or a dict is built by Python
  from the \<^verbatim>\<open>repr\<close> of its elements; it is not computed here but taken from \<open>repr_of\<close>,
  and nothing below depends on it.
\<close>

definition py_format :: "(pyval \<Rightarrow> string) \<Rightarrow> pyval \<Rightarrow> string" where
  "py_format repr_of v =
     (case v of
        PNone \<Rightarrow> ''None''
      | PBool b \<Rightarrow> (if b then ''True'' else ''False'')
      | PInt i \<Rightarrow> str_int i
      | PStr s \<Rightarrow> s
      | PList xs \<Rightarrow> repr_of v
      | PDict kvs \<Rightarrow> repr_of v)"

text \<open>\<^verbatim>\<open>not v\<close> is the negation of this.\<close>

definition py_truthy :: "pyval \<Rightarrow> bool" where
  "py_truthy v =
     (case v of
        PNone \<Rightarrow> False
      | PBool b \<Rightarrow> b
      | PInt i \<Rightarrow> i \<noteq> 0
      | PStr s \<Rightarrow> s \<noteq> []
      | PList xs \<Rightarrow> xs \<noteq> []
      | PDict kvs \<Rightarrow> kvs \<noteq> [])"

definition py_len :: "pyval \<Rightarrow> py_error + nat" where
  "py_len v =
     (case v of
        PStr s \<Rightarrow> Inr (length s)
      | PList xs \<Rightarrow> Inr (length xs)
      | PDict kvs \<Rightarrow> Inr (length kvs)
      | _ \<Rightarrow> Inl TypeError)"

text \<open>The items a \<^verbatim>\<open>for\<close> loop visits: elements, characters, or the keys of a dict.\<close>

definition py_iter :: "pyval \<Rightarrow> py_error + pyval list" where
  "py_iter v =
     (case v of
        PStr s \<Rightarrow> Inr (map (\<lambda>c. PStr [c]) s)
      | PList xs \<Rightarrow> Inr xs
      | PDict kvs \<Rightarrow> Inr (map fst kvs)
      | _ \<Rightarrow> Inl TypeError)"

text \<open>\<^verbatim>\<open>sep.join(xs)\<close>.\<close>

fun str_join :: "string \<Rightarrow> string list \<Rightarrow> string" where
  "str_join sep [] = []"
| "str_join sep [x] = x"
| "str_join sep (x # y # ys) = x @ sep @ str_join sep (y # ys)"


section \<open>Paths\<close>

text \<open>
  A \<^verbatim>\<open>pathlib\<close> path on POSIX is a root (empty, one slash or two) and the list of its
  components. Parsing splits at slashes and drops empty components and single dots.
\<close>

record pure_path =
  path_root :: string
  path_parts :: "string list"

text \<open>\<^verbatim>\<open>rel.split('/')\<close>: the fields between slashes, at least one.\<close>

fun split_sep :: "string \<Rightarrow> string list" where
  "split_sep [] = [[]]"
| "split_sep (c # cs) =
     (if c = CHR ''/'' then [] # split_sep cs
      else (case split_sep cs of [] \<Rightarrow> [[c]] | x # xs \<Rightarrow> (c # x) # xs))"

text \<open>
  \<^verbatim>\<open>posixpath.splitroot\<close> without the drive: exactly two leading slashes make the root
  \<^verbatim>\<open>//\<close>, one slash or three and more make it \<^verbatim>\<open>/\<close>.
\<close>

definition splitroot :: "string \<Rightarrow> string \<times> string" where
  "splitroot p =
     (if take 1 p \<noteq> ''/'' then ([], p)
      else if take 1 (drop 1 p) \<noteq> ''/'' \<or> take 1 (drop 2 p) = ''/'' then (''/'', drop 1 p)
      else (take 2 p, drop 2 p))"

text \<open>\<^verbatim>\<open>Path(s)\<close>.\<close>

definition parse_path :: "string \<Rightarrow> pure_path" where
  "parse_path s =
     (let (root, rel) = splitroot s
      in \<lparr>path_root = root,
          path_parts = filter (\<lambda>x. x \<noteq> [] \<and> x \<noteq> ''.'') (split_sep rel)\<rparr>)"

text \<open>\<^verbatim>\<open>str(p)\<close>, the text that \<^verbatim>\<open>open\<close> receives.\<close>

definition path_str :: "pure_path \<Rightarrow> string" where
  "path_str p =
     (if path_root p \<noteq> [] then path_root p @ str_join ''/'' (path_parts p)
      else if path_parts p = [] then ''.''
      else str_join ''/'' (path_parts p))"

text \<open>
  \<^verbatim>\<open>p / s\<close>: an operand with a root replaces the left path, any other is appended to it.
\<close>

definition path_div :: "pure_path \<Rightarrow> string \<Rightarrow> pure_path" where
  "path_div p s =
     (let q = parse_path s
      in if path_root q \<noteq> [] then q
         else \<lparr>path_root = path_root p, path_parts = path_parts p @ path_parts q\<rparr>)"


section \<open>The file system\<close>

text \<open>A relative path starts at the working directory, a path with a root at the root.\<close>

definition start_of :: "world \<Rightarrow> pure_path \<Rightarrow> location" where
  "start_of w p = (if path_root p = [] then cwd w else [])"

text \<open>
  Walking down the components of a directory path: two dots lead to the parent (the root is
  its own parent), any other name must be a directory of the place reached so far. A name
  that is a regular file gives \<^verbatim>\<open>NotADirectoryError\<close>, a name that does not exist
  \<^verbatim>\<open>FileNotFoundError\<close>.
\<close>

fun resolve_dir :: "world \<Rightarrow> location \<Rightarrow> string list \<Rightarrow> py_error + location" where
  "resolve_dir w cur [] = Inr cur"
| "resolve_dir w cur (c # cs) =
     (if c = ''..'' then resolve_dir w (butlast cur) cs
      else if cur @ [c] \<in> dirs w then resolve_dir w (cur @ [c]) cs
      else if files w (cur @ [c]) \<noteq> None then Inl NotADirectoryError
      else Inl FileNotFoundError)"

text \<open>
  The place where \<^verbatim>\<open>open(p, 'w')\<close> creates or replaces a regular file: the parent
  directory must exist, and the path itself must not be a directory.
\<close>

definition write_target :: "world \<Rightarrow> pure_path \<Rightarrow> py_error + location" where
  "write_target w p =
     (if path_parts p = [] then Inl IsADirectoryError
      else
        (case resolve_dir w (start_of w p) (butlast (path_parts p)) of
           Inl e \<Rightarrow> Inl e
         | Inr parent \<Rightarrow>
             (if last (path_parts p) = ''..'' \<or> parent @ [last (path_parts p)] \<in> dirs w
              then Inl IsADirectoryError
              else Inr (parent @ [last (path_parts p)]))))"

text \<open>\<^verbatim>\<open>with open(p, 'w') as file: file.write(text)\<close>.\<close>

definition open_write :: "pure_path \<Rightarrow> string \<Rightarrow> world \<Rightarrow> py_error + world" where
  "open_write p text w =
     (case write_target w p of
        Inl e \<Rightarrow> Inl e
      | Inr loc \<Rightarrow> Inr (w\<lparr>files := (files w)(loc \<mapsto> text)\<rparr>))"

text \<open>
  \<^verbatim>\<open>p.mkdir(exist_ok=True)\<close>: the parent must exist; a directory that is already there is
  left alone; a regular file of that name gives \<^verbatim>\<open>FileExistsError\<close>.
\<close>

definition mkdir_exist_ok :: "pure_path \<Rightarrow> world \<Rightarrow> py_error + world" where
  "mkdir_exist_ok p w =
     (if path_parts p = [] then Inr w
      else
        (case resolve_dir w (start_of w p) (butlast (path_parts p)) of
           Inl e \<Rightarrow> Inl e
         | Inr parent \<Rightarrow>
             (if last (path_parts p) = ''..'' \<or> parent @ [last (path_parts p)] \<in> dirs w
              then Inr w
              else if files w (parent @ [last (path_parts p)]) \<noteq> None
              then Inl FileExistsError
              else Inr (w\<lparr>dirs := insert (parent @ [last (path_parts p)]) (dirs w)\<rparr>))))"


section \<open>The functions of the program\<close>

text \<open>The check mark that \<^verbatim>\<open>ensure_output_directory\<close> prints, in UTF-8.\<close>

definition check_mark :: string where
  "check_mark = [CHR 0xE2, CHR 0x9C, CHR 0x93]"

text \<open>
  \<^verbatim>\<open>ensure_output_directory\<close>: \<^verbatim>\<open>Path("configs").mkdir(exist_ok=True)\<close>, one printed
  line, and the path is returned. An exception of \<^verbatim>\<open>mkdir\<close> leaves the function before
  the line is printed.
\<close>

definition ensure_output_directory :: "world \<Rightarrow> (py_error + pure_path) \<times> world" where
  "ensure_output_directory w =
     (let output_dir = parse_path ''configs''
      in case mkdir_exist_ok output_dir w of
           Inl e \<Rightarrow> (Inl e, w)
         | Inr w \<Rightarrow>
             (let w = py_print (check_mark @ '' Output directory ensured: ''
                                @ path_str output_dir) w
              in (Inr output_dir, w)))"

text \<open>
  \<^verbatim>\<open>load_inventory\<close>: the \<^verbatim>\<open>try\<close> block opens, parses and calls
  \<^verbatim>\<open>inventory.get('devices', [])\<close>; the handlers catch \<^verbatim>\<open>FileNotFoundError\<close> and
  \<^verbatim>\<open>yaml.YAMLError\<close> only. \<^verbatim>\<open>get\<close> is a method of dicts: on any other value the
  attribute lookup raises \<^verbatim>\<open>AttributeError\<close>.
\<close>

definition load_inventory :: "string \<Rightarrow> world \<Rightarrow> (py_error + pyval) \<times> world" where
  "load_inventory inventory_file w =
     (case source w inventory_file of
        Parsed inventory \<Rightarrow>
          (case inventory of
             PDict kvs \<Rightarrow>
               (Inr (case map_of kvs (PStr ''devices'') of None \<Rightarrow> PList [] | Some v \<Rightarrow> v), w)
           | _ \<Rightarrow> (Inl AttributeError, w))
      | NotFound \<Rightarrow>
          (Inr (PList []),
           py_print (''Error: Inventory file '' @ [CHR 0x27] @ inventory_file @ [CHR 0x27]
                     @ '' not found'') w)
      | ParseFails e \<Rightarrow> (Inr (PList []), py_print (''Error parsing YAML file: '' @ e) w)
      | OpenFails e \<Rightarrow> (Inl (Uncaught e), w))"

text \<open>
  \<^verbatim>\<open>save_configuration\<close>: the file name is
  \<^verbatim>\<open>output_dir / f"{device_name}_vlan_config.txt"\<close>; the file is opened for writing, which
  creates or replaces it, and receives \<^verbatim>\<open>'\n'.join(configurations)\<close>. The path is
  returned. An exception of \<^verbatim>\<open>open\<close> leaves the function and nothing is written.
\<close>

definition save_configuration ::
  "string \<Rightarrow> string list \<Rightarrow> pure_path \<Rightarrow> world \<Rightarrow> (py_error + pure_path) \<times> world" where
  "save_configuration device_name configurations output_dir w =
     (let filename = path_div output_dir (device_name @ ''_vlan_config.txt'')
      in case open_write filename (str_join [CHR 0x0A] configurations) w of
           Inl e \<Rightarrow> (Inl e, w)
         | Inr w \<Rightarrow> (Inr filename, w))"

text \<open>
  \<^verbatim>\<open>print_configurations\<close>: a rule of 50 equals signs after a blank line, the device
  header, the rule again, then one \<^verbatim>\<open>print\<close> for each line.
\<close>

fun print_lines :: "string list \<Rightarrow> world \<Rightarrow> world" where
  "print_lines [] w = w"
| "print_lines (line # rest) w = print_lines rest (py_print line w)"

definition print_configurations :: "string \<Rightarrow> string list \<Rightarrow> world \<Rightarrow> world" where
  "print_configurations device_name configurations w =
     (let w = py_print ([CHR 0x0A] @ replicate 50 CHR ''='') w;
          w = py_print (''VLAN Configurations for: '' @ device_name) w;
          w = py_print (replicate 50 CHR ''='') w
      in print_lines configurations w)"

text \<open>
  The body of the \<^verbatim>\<open>for device in devices\<close> loop of \<^verbatim>\<open>main\<close>. \<^verbatim>\<open>device['name']\<close>
  raises \<^verbatim>\<open>KeyError\<close> on a dict without the key and \<^verbatim>\<open>TypeError\<close> on anything that is
  not a dict. What was printed and written before an exception stays. The name and the type
  are used in interpolations only, so each is kept as the text it is formatted to. The range
  passed to the generator is the literal \<^verbatim>\<open>(5, 10)\<close>.
\<close>

definition process_device ::
  "(pyval \<Rightarrow> string) \<Rightarrow> pure_path \<Rightarrow> pyval \<Rightarrow> world \<Rightarrow> (py_error + unit) \<times> world" where
  "process_device repr_of output_dir device w =
     (case device of
        PDict kvs \<Rightarrow>
          (case map_of kvs (PStr ''name'') of
             None \<Rightarrow> (Inl KeyError, w)
           | Some name \<Rightarrow>
               (let device_name = py_format repr_of name;
                    device_type = py_format repr_of
                      (case map_of kvs (PStr ''type'') of None \<Rightarrow> PStr ''cisco_ios'' | Some t \<Rightarrow> t);
                    w = py_print ([CHR 0x0A] @ ''Generating VLANs for: '' @ device_name
                                  @ '' ('' @ device_type @ '')'') w;
                    configurations = generate_vlan_configurations device_name (5, 10);
                    w = print_configurations device_name configurations w
                in case save_configuration device_name configurations output_dir w of
                     (Inl e, w) \<Rightarrow> (Inl e, w)
                   | (Inr saved_file, w) \<Rightarrow>
                       (let w = py_print (''Configuration saved to: '' @ path_str saved_file) w
                        in (Inr (), w))))
      | _ \<Rightarrow> (Inl TypeError, w))"

fun device_loop ::
  "(pyval \<Rightarrow> string) \<Rightarrow> pure_path \<Rightarrow> pyval list \<Rightarrow> world \<Rightarrow> (py_error + unit) \<times> world" where
  "device_loop repr_of output_dir [] w = (Inr (), w)"
| "device_loop repr_of output_dir (device # rest) w =
     (case process_device repr_of output_dir device w of
        (Inl e, w') \<Rightarrow> (Inl e, w')
      | (Inr u, w') \<Rightarrow> device_loop repr_of output_dir rest w')"

text \<open>
  \<^verbatim>\<open>main\<close> from the check \<^verbatim>\<open>if not devices\<close> to its end: the early return, the
  count of devices (\<^verbatim>\<open>len\<close> raises \<^verbatim>\<open>TypeError\<close> on a number), the loop and the two
  closing lines.
\<close>

definition main_with_devices ::
  "(pyval \<Rightarrow> string) \<Rightarrow> pure_path \<Rightarrow> pyval \<Rightarrow> world \<Rightarrow> (py_error + unit) \<times> world" where
  "main_with_devices repr_of output_dir devices w =
     (if \<not> py_truthy devices
      then (Inr (), py_print ''No devices found in inventory. Exiting.'' w)
      else
        (case py_len devices of
           Inl e \<Rightarrow> (Inl e, w)
         | Inr n \<Rightarrow>
             (let w = py_print (''Found '' @ str_nat n @ '' device(s) in inventory'') w
              in case py_iter devices of
                   Inl e \<Rightarrow> (Inl e, w)
                 | Inr items \<Rightarrow>
                     (case device_loop repr_of output_dir items w of
                        (Inl e, w') \<Rightarrow> (Inl e, w')
                      | (Inr u, w') \<Rightarrow>
                          (let w' = py_print ([CHR 0x0A]
                                      @ ''VLAN configuration generation completed!'') w';
                               w' = py_print (''All files saved in: '' @ path_str output_dir) w'
                           in (Inr (), w'))))))"

text \<open>\<^verbatim>\<open>main\<close>, which calls \<^verbatim>\<open>load_inventory()\<close> with its default file name.\<close>

definition main :: "(pyval \<Rightarrow> string) \<Rightarrow> world \<Rightarrow> (py_error + unit) \<times> world" where
  "main repr_of w =
     (let w = py_print ''VLAN Configuration Generator'' w;
          w = py_print ''Loading inventory...'' w
      in case ensure_output_directory w of
           (Inl e, w) \<Rightarrow> (Inl e, w)
         | (Inr output_dir, w) \<Rightarrow>
             (case load_inventory ''inventory.yml'' w of
                (Inl e, w) \<Rightarrow> (Inl e, w)
              | (Inr devices, w) \<Rightarrow> main_with_devices repr_of output_dir devices w))"


section \<open>Worlds\<close>

text \<open>
  A world for the examples: the program runs in \<^verbatim>\<open>/home/ops\<close>, the directory
  \<^verbatim>\<open>/tmp\<close> exists, there are no regular files and no inventory file, and nothing has
  been printed.
\<close>

definition initial_world :: world where
  "initial_world =
     \<lparr>source = (\<lambda>f. NotFound),
      cwd = [''home'', ''ops''],
      dirs = {[''home''], [''home'', ''ops''], [''tmp'']},
      files = (\<lambda>p. None),
      console = []\<rparr>"

text \<open>
  The world when \<^verbatim>\<open>main\<close> reaches \<^verbatim>\<open>load_inventory()\<close>: two lines are printed, the
  output directory exists and is reported.
\<close>

definition after_setup :: "world \<Rightarrow> world" where
  "after_setup w =
     w\<lparr>dirs := insert (cwd w @ [''configs'']) (dirs w),
       console := console w @
         [''VLAN Configuration Generator'', ''Loading inventory...'',
          check_mark @ '' Output directory ensured: configs'']\<rparr>"


section \<open>The generator in closed form\<close>

text \<open>The loop appends one block for each id from the start up to the one before the stop.\<close>

lemma vlan_loop_eq: "vlan_loop i stop acc = acc @ concat (map vlan_block [i..stop - 1])"
proof (induction i stop acc rule: vlan_loop.induct)
  case (1 i stop acc)
  show ?case
  proof (cases "i < stop")
    case True
    then have u: "[i..stop - 1] = i # [i + 1..stop - 1]"
      by (simp add: upto_rec1)
    have "vlan_loop i stop acc = vlan_loop (i + 1) stop (acc @ vlan_block i)"
      using True by (simp add: vlan_loop.simps [of i])
    also have "\<dots> = (acc @ vlan_block i) @ concat (map vlan_block [i + 1..stop - 1])"
      using True by (rule "1.IH")
    finally show ?thesis by (simp add: u)
  next
    case False
    then show ?thesis by (simp add: vlan_loop.simps [of i])
  qed
qed

lemma generate_unfold:
  "generate_vlan_configurations d (s, e) =
     [''! VLAN Configuration for '' @ d, ''configure terminal''] @
     concat (map vlan_block [s..e]) @ [''end'', ''write memory'', '''']"
  by (simp add: generate_vlan_configurations_def vlan_loop_eq)

lemma length_blocks: "length (concat (map vlan_block xs)) = 3 * length xs"
  by (induction xs) (simp_all add: vlan_block_def)

lemma length_generate: "length (generate_vlan_configurations d (s, e)) = 5 + 3 * nat (e - s + 1)"
  by (simp add: generate_unfold length_blocks)

lemma blocks_nth:
  "k < length xs \<Longrightarrow> j < 3 \<Longrightarrow> concat (map vlan_block xs) ! (3 * k + j) = vlan_block (xs ! k) ! j"
proof (induction xs arbitrary: k)
  case Nil
  then show ?case by simp
next
  case (Cons x xs)
  show ?case
  proof (cases k)
    case 0
    have "length (vlan_block x) = 3" by (simp add: vlan_block_def)
    then show ?thesis using 0 Cons.prems by (simp add: nth_append)
  next
    case (Suc m)
    have l: "length (vlan_block x) = 3" by (simp add: vlan_block_def)
    have "3 * k + j = 3 + (3 * m + j)" using Suc by simp
    then have "concat (map vlan_block (x # xs)) ! (3 * k + j) = concat (map vlan_block xs) ! (3 * m + j)"
      using l by (simp add: nth_append)
    also have "\<dots> = vlan_block (xs ! m) ! j"
      using Cons.IH [of m] Cons.prems Suc by simp
    finally show ?thesis using Suc by simp
  qed
qed

lemma generate_nth_block:
  assumes "s \<le> v" and "v \<le> e" and "j < 3"
  shows "generate_vlan_configurations d (s, e) ! (2 + 3 * nat (v - s) + j) = vlan_block v ! j"
proof -
  let ?k = "nat (v - s)"
  have k: "?k < length [s..e]" using assms by simp
  have n: "[s..e] ! ?k = v" using assms by simp
  have "generate_vlan_configurations d (s, e) ! (2 + 3 * ?k + j)
        = (concat (map vlan_block [s..e]) @ [''end'', ''write memory'', '''']) ! (3 * ?k + j)"
    by (simp add: generate_unfold)
  also have "\<dots> = concat (map vlan_block [s..e]) ! (3 * ?k + j)"
  proof -
    have "3 * ?k + j < 3 * length [s..e]" using k assms(3) by linarith
    then show ?thesis by (simp only: nth_append length_blocks if_True)
  qed
  also have "\<dots> = vlan_block ([s..e] ! ?k) ! j"
    using k assms(3) by (rule blocks_nth)
  finally show ?thesis using n by simp
qed

lemma length_format_03d: "length (format_03d v) = max 3 (length (str_int v))"
  by (simp add: format_03d_def str_int_def Let_def)

lemma format_03d_shape:
  "format_03d v = sign_str v @ replicate (3 - length (str_int v)) CHR ''0'' @ str_nat (nat \<bar>v\<bar>)"
  by (simp add: format_03d_def str_int_def Let_def)

lemma format_03d_7: "format_03d 7 = ''007''"
  by (simp add: format_03d_def sign_str_def str_nat.simps digit_char_def numeral_2_eq_2)

lemma format_03d_1000: "format_03d 1000 = ''1000''"
  by (simp add: format_03d_def sign_str_def str_nat.simps digit_char_def)

lemma length_str_nat_pos: "Suc 0 \<le> length (str_nat n)"
  by (subst str_nat.simps) simp

lemma length_str_nat_ge3: "100 \<le> n \<Longrightarrow> 3 \<le> length (str_nat n)"
proof -
  assume h: "100 \<le> n"
  have a: "str_nat n = str_nat (n div 10) @ [digit_char (n mod 10)]"
    using h by (subst str_nat.simps) simp
  have "10 \<le> n div 10" using h by linarith
  then have b: "str_nat (n div 10) = str_nat (n div 10 div 10) @ [digit_char (n div 10 mod 10)]"
    by (subst str_nat.simps) simp
  have "Suc 0 \<le> length (str_nat (n div 10 div 10))" by (rule length_str_nat_pos)
  then show ?thesis by (simp only: a b length_append list.size)
qed

lemma format_03d_wide: "100 \<le> v \<Longrightarrow> format_03d v = str_int v"
  using length_str_nat_ge3 [of "nat \<bar>v\<bar>"]
  by (simp add: format_03d_def str_int_def Let_def sign_str_def)

lemma generate_5_10:
  "generate_vlan_configurations d (5, 10) =
     [''! VLAN Configuration for '' @ d, ''configure terminal'',
      ''vlan 5'', '' name VLAN_005'', '' exit'',
      ''vlan 6'', '' name VLAN_006'', '' exit'',
      ''vlan 7'', '' name VLAN_007'', '' exit'',
      ''vlan 8'', '' name VLAN_008'', '' exit'',
      ''vlan 9'', '' name VLAN_009'', '' exit'',
      ''vlan 10'', '' name VLAN_010'', '' exit'',
      ''end'', ''write memory'', '''']"
  by (simp add: generate_unfold upto_rec1 vlan_block_def str_int_def format_03d_def sign_str_def
      str_nat.simps digit_char_def numeral_2_eq_2)


section \<open>Properties of the generator\<close>

text \<open>
  C1, as stated: the generator returns \<open>4 + 3 * (end - start + 1)\<close> lines, 22 for the range
  5 to 10. It does not: the list for that range has 23 elements, because the header is two
  lines and the footer three, the empty string included.
\<close>

theorem generate_line_count_counterexample:
  "length (generate_vlan_configurations ''core_switch_01'' (5, 10)) \<noteq> 4 + 3 * nat (10 - 5 + 1)
   \<and> length (generate_vlan_configurations ''core_switch_01'' (5, 10)) \<noteq> 22"
  by (simp add: length_generate)

text \<open>
  C1, amended: for every device name and every range the generator returns
  \<open>5 + 3 * (end - start + 1)\<close> lines when \<open>start \<le> end\<close> and 5 lines otherwise; for the
  range 5 to 10 that is 23 lines.
\<close>

theorem generate_line_count:
  "length (generate_vlan_configurations d (s, e)) = (if s \<le> e then 5 + 3 * nat (e - s + 1) else 5)
   \<and> length (generate_vlan_configurations d (5, 10)) = 23"
  by (simp add: length_generate)

text \<open>
  C2: the output is the header comment with the device name, \<^verbatim>\<open>configure terminal\<close>, then
  for each id from start to end in ascending order the lines \<^verbatim>\<open>vlan v\<close>,
  \<^verbatim>\<open> name VLAN_\<close> with the id padded to three columns and \<^verbatim>\<open> exit\<close>, then
  \<^verbatim>\<open>end\<close>, \<^verbatim>\<open>write memory\<close> and one empty line. It holds for every range; with
  \<open>end < start\<close> the list of ids is empty.
\<close>

theorem generate_structure:
  "generate_vlan_configurations d (s, e) =
     [''! VLAN Configuration for '' @ d, ''configure terminal''] @
     concat (map (\<lambda>v. [''vlan '' @ str_int v, '' name VLAN_'' @ format_03d v, '' exit'']) [s..e]) @
     [''end'', ''write memory'', '''']"
  by (simp add: generate_unfold vlan_block_def [abs_def])

text \<open>
  C3: with \<open>end < start\<close> the generator returns, raising nothing, the two header lines and
  the three footer lines, with no \<^verbatim>\<open>vlan\<close>, \<^verbatim>\<open> name\<close> or \<^verbatim>\<open> exit\<close> line between them.
\<close>

theorem generate_empty_range:
  "e < s \<Longrightarrow>
   generate_vlan_configurations d (s, e) =
     [''! VLAN Configuration for '' @ d, ''configure terminal'', ''end'', ''write memory'', '''']"
  by (simp add: generate_unfold)

theorem generate_empty_range_witness:
  "(5::int) < 10 \<and>
   generate_vlan_configurations ''sw1'' (10, 5) =
     [''! VLAN Configuration for sw1'', ''configure terminal'', ''end'', ''write memory'', '''']"
  using generate_empty_range [of 5 10 "''sw1''"] by simp

text \<open>
  C4: for every id \<open>v\<close> of the range, the second line of its block is \<^verbatim>\<open> name VLAN_\<close>
  followed by \<open>v\<close> padded with zeros, between sign and digits, to three columns; a text
  that is wider than three columns is kept whole. For 7 the line is \<^verbatim>\<open> name VLAN_007\<close>, for
  1000 it is \<^verbatim>\<open> name VLAN_1000\<close>.
\<close>

theorem vlan_name_line_padding:
  assumes "s \<le> v" and "v \<le> e"
  shows "generate_vlan_configurations d (s, e) ! (3 + 3 * nat (v - s)) = '' name VLAN_'' @ format_03d v
       \<and> format_03d v = sign_str v @ replicate (3 - length (str_int v)) CHR ''0'' @ str_nat (nat \<bar>v\<bar>)
       \<and> length (format_03d v) = max 3 (length (str_int v))
       \<and> '' name VLAN_'' @ format_03d 7 = '' name VLAN_007''
       \<and> '' name VLAN_'' @ format_03d 1000 = '' name VLAN_1000''"
proof -
  have i: "2 + 3 * nat (v - s) + 1 = 3 + 3 * nat (v - s)"
    by simp
  have l: "vlan_block v ! 1 = '' name VLAN_'' @ format_03d v"
    by (simp add: vlan_block_def)
  have "generate_vlan_configurations d (s, e) ! (2 + 3 * nat (v - s) + 1) = vlan_block v ! 1"
    using assms by (intro generate_nth_block) simp_all
  then have n: "generate_vlan_configurations d (s, e) ! (3 + 3 * nat (v - s)) = '' name VLAN_'' @ format_03d v"
    by (simp only: i l)
  have a: "format_03d v = sign_str v @ replicate (3 - length (str_int v)) CHR ''0'' @ str_nat (nat \<bar>v\<bar>)"
    by (rule format_03d_shape)
  have b: "length (format_03d v) = max 3 (length (str_int v))"
    by (rule length_format_03d)
  have c: "'' name VLAN_'' @ format_03d 7 = '' name VLAN_007''"
    by (simp add: format_03d_7)
  have e: "'' name VLAN_'' @ format_03d 1000 = '' name VLAN_1000''"
    by (simp add: format_03d_1000)
  from n a b c e show ?thesis by blast
qed

theorem vlan_name_line_padding_witness:
  "(5::int) \<le> 7 \<and> (7::int) \<le> 10
   \<and> generate_vlan_configurations ''sw1'' (5, 10) ! 9 = '' name VLAN_007''"
  using vlan_name_line_padding [of 5 7 10 "''sw1''"] by (simp add: format_03d_7)

section \<open>The path of an artifact\<close>

text \<open>
  A file name without a slash is one component: joining it to a directory appends it. The
  artifact name of a device name without a slash is such a file name.
\<close>

lemma split_sep_no_slash: "CHR ''/'' \<notin> set s \<Longrightarrow> split_sep s = [s]"
  by (induction s) auto

lemma splitroot_relative: "CHR ''/'' \<notin> set s \<Longrightarrow> splitroot s = ([], s)"
  by (cases s) (auto simp: splitroot_def)

lemma parse_path_component:
  assumes "CHR ''/'' \<notin> set s" and "s \<noteq> []" and "s \<noteq> ''.''"
  shows "parse_path s = \<lparr>path_root = [], path_parts = [s]\<rparr>"
  using assms by (simp add: parse_path_def splitroot_relative split_sep_no_slash)

lemma parse_path_configs: "parse_path ''configs'' = \<lparr>path_root = [], path_parts = [''configs'']\<rparr>"
  by (rule parse_path_component) simp_all

lemma path_div_component:
  assumes "CHR ''/'' \<notin> set s" and "s \<noteq> []" and "s \<noteq> ''.''"
  shows "path_div p s = \<lparr>path_root = path_root p, path_parts = path_parts p @ [s]\<rparr>"
  using assms by (simp add: path_div_def parse_path_component)

lemma artifact_name_ok:
  "CHR ''/'' \<notin> set name \<Longrightarrow>
     CHR ''/'' \<notin> set (name @ ''_vlan_config.txt'') \<and> name @ ''_vlan_config.txt'' \<noteq> []
     \<and> name @ ''_vlan_config.txt'' \<noteq> ''.''"
  by (cases name) auto

lemma artifact_path:
  assumes "CHR ''/'' \<notin> set name"
  shows "path_div p (name @ ''_vlan_config.txt'')
         = \<lparr>path_root = path_root p, path_parts = path_parts p @ [name @ ''_vlan_config.txt'']\<rparr>"
  using artifact_name_ok [OF assms] by (intro path_div_component) simp_all


text \<open>
  Joining puts one newline between two lines. The 23 lines of the range 5 to 10 make a file
  with 22 newlines when the device name has none: 22 lines of text, each ended by a newline,
  the last newline coming before the empty string that closes the list.
\<close>

lemma count_newlines_join:
  "length (filter (\<lambda>c. c = CHR 0x0A) (str_join [CHR 0x0A] ls))
     = (length ls - 1) + length (filter (\<lambda>c. c = CHR 0x0A) (concat ls))"
  by (induction "[CHR 0x0A]" ls rule: str_join.induct) simp_all

lemma artifact_newlines:
  "length (filter (\<lambda>c. c = CHR 0x0A)
             (str_join [CHR 0x0A] (generate_vlan_configurations d (5, 10))))
     = 22 + length (filter (\<lambda>c. c = CHR 0x0A) d)"
  by (simp add: count_newlines_join generate_5_10)


section \<open>Directories and files\<close>

text \<open>
  Walking a directory path looks at the directories and, to tell the two errors apart, at the
  files; once it has succeeded it succeeds again wherever the directories are the same.
  Printing changes neither.
\<close>

lemma resolve_dir_frame:
  "dirs w' = dirs w \<Longrightarrow> files w' = files w \<Longrightarrow> resolve_dir w' cur cs = resolve_dir w cur cs"
  by (induction cs arbitrary: cur) simp_all



lemma resolve_dir_configs:
  "resolve_dir w (cwd w) [''configs''] =
     (if cwd w @ [''configs''] \<in> dirs w then Inr (cwd w @ [''configs''])
      else if files w (cwd w @ [''configs'']) \<noteq> None then Inl NotADirectoryError
      else Inl FileNotFoundError)"
  by simp


lemma write_target_frame:
  assumes "cwd w' = cwd w" and "dirs w' = dirs w" and "files w' = files w"
  shows "write_target w' p = write_target w p"
proof -
  have r: "resolve_dir w' cur cs = resolve_dir w cur cs" for cur cs
    using assms(2,3) by (rule resolve_dir_frame)
  show ?thesis
    by (simp add: write_target_def start_of_def assms(1,2) r cong: sum.case_cong)
qed

lemma write_target_console: "write_target (w\<lparr>console := c\<rparr>) p = write_target w p"
  by (rule write_target_frame) simp_all



lemma save_configuration_eq:
  "save_configuration name cfg out w =
     (case write_target w (path_div out (name @ ''_vlan_config.txt'')) of
        Inl e \<Rightarrow> (Inl e, w)
      | Inr loc \<Rightarrow>
          (Inr (path_div out (name @ ''_vlan_config.txt'')),
           w\<lparr>files := (files w)(loc \<mapsto> str_join [CHR 0x0A] cfg)\<rparr>))"
  by (simp add: save_configuration_def open_write_def Let_def split: sum.splits)

text \<open>
  Making \<^verbatim>\<open>configs\<close> succeeds unless a regular file of that name is in the working
  directory.
\<close>

lemma mkdir_configs:
  "mkdir_exist_ok \<lparr>path_root = [], path_parts = [''configs'']\<rparr> w =
     (if cwd w @ [''configs''] \<in> dirs w \<or> files w (cwd w @ [''configs'']) = None
      then Inr (w\<lparr>dirs := insert (cwd w @ [''configs'']) (dirs w)\<rparr>)
      else Inl FileExistsError)"
  by (simp add: mkdir_exist_ok_def start_of_def insert_absorb)

lemma ensure_output_directory_eq:
  "ensure_output_directory w =
     (if cwd w @ [''configs''] \<in> dirs w \<or> files w (cwd w @ [''configs'']) = None
      then (Inr \<lparr>path_root = [], path_parts = [''configs'']\<rparr>,
            w\<lparr>dirs := insert (cwd w @ [''configs'']) (dirs w),
              console := console w @ [check_mark @ '' Output directory ensured: configs'']\<rparr>)
      else (Inl FileExistsError, w))"
  by (simp add: ensure_output_directory_def parse_path_configs mkdir_configs path_str_def
      py_print_def)

lemma after_setup_initial:
  "cwd (after_setup initial_world) = [''home'', ''ops'']"
  "dirs (after_setup initial_world)
     = {[''home'', ''ops'', ''configs''], [''home''], [''home'', ''ops''], [''tmp'']}"
  "files (after_setup initial_world) = (\<lambda>p. None)"
  by (simp_all add: after_setup_def initial_world_def)


section \<open>Effects of the loop body, the loader and the orchestrator\<close>

text \<open>
  The loop body on a dict with a name prints the announcement with name and type and the
  transcript; then the file is written and its path printed, or the exception of
  \<^verbatim>\<open>open\<close> leaves the loop body.
\<close>

lemma print_lines_eq: "print_lines ls w = w\<lparr>console := console w @ ls\<rparr>"
  by (induction ls arbitrary: w) (simp_all add: py_print_def)

lemma process_device_dict:
  assumes "map_of kvs (PStr ''name'') = Some n"
  shows "process_device rp out (PDict kvs) w =
     (case write_target w (path_div out (py_format rp n @ ''_vlan_config.txt'')) of
        Inl e \<Rightarrow>
          (Inl e,
           w\<lparr>console := console w @
              [[CHR 0x0A] @ ''Generating VLANs for: '' @ py_format rp n @ '' ('' @
                 py_format rp (case map_of kvs (PStr ''type'') of
                                 None \<Rightarrow> PStr ''cisco_ios'' | Some t \<Rightarrow> t)
                 @ '')'',
               [CHR 0x0A] @ replicate 50 CHR ''='',
               ''VLAN Configurations for: '' @ py_format rp n,
               replicate 50 CHR ''=''] @
              generate_vlan_configurations (py_format rp n) (5, 10)\<rparr>)
      | Inr loc \<Rightarrow>
          (Inr (),
           w\<lparr>files := (files w)
                  (loc \<mapsto> str_join [CHR 0x0A]
                             (generate_vlan_configurations (py_format rp n) (5, 10))),
             console := console w @
              [[CHR 0x0A] @ ''Generating VLANs for: '' @ py_format rp n @ '' ('' @
                 py_format rp (case map_of kvs (PStr ''type'') of
                                 None \<Rightarrow> PStr ''cisco_ios'' | Some t \<Rightarrow> t)
                 @ '')'',
               [CHR 0x0A] @ replicate 50 CHR ''='',
               ''VLAN Configurations for: '' @ py_format rp n,
               replicate 50 CHR ''=''] @
              generate_vlan_configurations (py_format rp n) (5, 10) @
              [''Configuration saved to: '' @
                 path_str (path_div out (py_format rp n @ ''_vlan_config.txt''))]\<rparr>))"
proof (cases "write_target w (path_div out (py_format rp n @ ''_vlan_config.txt''))")
  case (Inl e)
  then show ?thesis
    using assms
    by (simp add: process_device_def Let_def print_configurations_def print_lines_eq
        save_configuration_eq py_print_def write_target_console)
next
  case (Inr loc)
  then show ?thesis
    using assms
    by (simp add: process_device_def Let_def print_configurations_def print_lines_eq
        save_configuration_eq py_print_def write_target_console)
qed

lemma process_device_no_name:
  "map_of kvs (PStr ''name'') = None \<Longrightarrow> process_device rp out (PDict kvs) w = (Inl KeyError, w)"
  by (simp add: process_device_def)


text \<open>
  The result of the loop body and the files it leaves depend on the file system before and
  on the value under \<^verbatim>\<open>name\<close>, on nothing else.
\<close>

lemma process_device_files:
  assumes "cwd w1 = cwd w2" and "dirs w1 = dirs w2" and "files w1 = files w2"
    and "map_of ka (PStr ''name'') = map_of kb (PStr ''name'')"
  shows "fst (process_device rp out (PDict ka) w1) = fst (process_device rp out (PDict kb) w2)
       \<and> files (snd (process_device rp out (PDict ka) w1))
         = files (snd (process_device rp out (PDict kb) w2))
       \<and> dirs (snd (process_device rp out (PDict ka) w1))
         = dirs (snd (process_device rp out (PDict kb) w2))
       \<and> cwd (snd (process_device rp out (PDict ka) w1))
         = cwd (snd (process_device rp out (PDict kb) w2))"
proof (cases "map_of kb (PStr ''name'')")
  case None
  then show ?thesis using assms by (simp add: process_device_no_name)
next
  case (Some n)
  have t: "write_target w1 p = write_target w2 p" for p
    using assms(1,2,3) by (rule write_target_frame)
  show ?thesis
  proof (cases "write_target w2 (path_div out (py_format rp n @ ''_vlan_config.txt''))")
    case (Inl e)
    then show ?thesis using Some assms by (simp add: process_device_dict t)
  next
    case (Inr loc)
    then show ?thesis using Some assms by (simp add: process_device_dict t)
  qed
qed

lemma same_name_value:
  assumes "list_all (\<lambda>k. k = PStr ''type'' \<or> map_of ka k = map_of kb k) (map fst ka @ map fst kb)"
  shows "map_of ka (PStr ''name'') = map_of kb (PStr ''name'')"
proof (cases "PStr ''name'' \<in> set (map fst ka @ map fst kb)")
  case True
  have "\<forall>k \<in> set (map fst ka @ map fst kb). k = PStr ''type'' \<or> map_of ka k = map_of kb k"
    using assms by (simp only: list_all_iff)
  then have "PStr ''name'' = PStr ''type'' \<or> map_of ka (PStr ''name'') = map_of kb (PStr ''name'')"
    using True by (rule bspec)
  then show ?thesis by simp
next
  case False
  then have "map_of ka (PStr ''name'') = None" and "map_of kb (PStr ''name'') = None"
    by (simp_all add: map_of_eq_None_iff)
  then show ?thesis by simp
qed

text \<open>
  The loader on the inputs it handles: an absent file and a parser error give the empty list
  and one printed line; a dict gives the value under \<^verbatim>\<open>devices\<close>, or the empty list.
  It never touches the file system.
\<close>

lemma load_inventory_handled:
  "source w f = NotFound \<Longrightarrow>
     load_inventory f w =
       (Inr (PList []),
        w\<lparr>console := console w @
          [''Error: Inventory file '' @ [CHR 0x27] @ f @ [CHR 0x27] @ '' not found'']\<rparr>)"
  "source w f = ParseFails msg \<Longrightarrow>
     load_inventory f w =
       (Inr (PList []), w\<lparr>console := console w @ [''Error parsing YAML file: '' @ msg]\<rparr>)"
  "source w f = Parsed (PDict kvs) \<Longrightarrow> map_of kvs (PStr ''devices'') = None \<Longrightarrow>
     load_inventory f w = (Inr (PList []), w)"
  "source w f = Parsed (PDict kvs) \<Longrightarrow> map_of kvs (PStr ''devices'') = Some v \<Longrightarrow>
     load_inventory f w = (Inr v, w)"
  by (simp_all add: load_inventory_def py_print_def)

lemma load_inventory_fst:
  "source w' = source w \<Longrightarrow> fst (load_inventory f w') = fst (load_inventory f w)"
  by (simp add: load_inventory_def split: source_outcome.splits pyval.splits)

lemma load_inventory_frame:
  "files (snd (load_inventory f w)) = files w"
  "dirs (snd (load_inventory f w)) = dirs w"
  "cwd (snd (load_inventory f w)) = cwd w"
  "source (snd (load_inventory f w)) = source w"
  by (simp_all add: load_inventory_def py_print_def split: source_outcome.splits pyval.splits)

text \<open>
  \<^verbatim>\<open>main\<close> is its set-up, the loader, and the part that works on the devices; when
  \<^verbatim>\<open>configs\<close> is a regular file it ends in the set-up with \<^verbatim>\<open>FileExistsError\<close>.
\<close>

lemma main_eq:
  "main rp w =
     (if cwd w @ [''configs''] \<in> dirs w \<or> files w (cwd w @ [''configs'']) = None
      then
        (case fst (load_inventory ''inventory.yml'' w) of
           Inl e \<Rightarrow> (Inl e, snd (load_inventory ''inventory.yml'' (after_setup w)))
         | Inr devices \<Rightarrow>
             main_with_devices rp \<lparr>path_root = [], path_parts = [''configs'']\<rparr> devices
               (snd (load_inventory ''inventory.yml'' (after_setup w))))
      else
        (Inl FileExistsError,
         w\<lparr>console := console w @
            [''VLAN Configuration Generator'', ''Loading inventory...'']\<rparr>))"
proof (cases "cwd w @ [''configs''] \<in> dirs w \<or> files w (cwd w @ [''configs'']) = None")
  case False
  have e: "ensure_output_directory
             (py_print ''Loading inventory...'' (py_print ''VLAN Configuration Generator'' w))
           = (Inl FileExistsError,
              py_print ''Loading inventory...'' (py_print ''VLAN Configuration Generator'' w))"
    using False by (simp add: ensure_output_directory_eq py_print_def)
  have "main rp w =
          (Inl FileExistsError,
           py_print ''Loading inventory...'' (py_print ''VLAN Configuration Generator'' w))"
    by (simp add: main_def Let_def e)
  then show ?thesis
    by (simp only: if_not_P [OF False]) (simp add: py_print_def)
next
  case True
  have s: "source (after_setup w) = source w"
    by (simp add: after_setup_def)
  have e: "ensure_output_directory
             (py_print ''Loading inventory...'' (py_print ''VLAN Configuration Generator'' w))
           = (Inr \<lparr>path_root = [], path_parts = [''configs'']\<rparr>, after_setup w)"
    using True by (simp add: ensure_output_directory_eq py_print_def after_setup_def)
  obtain r w2 where l: "load_inventory ''inventory.yml'' (after_setup w) = (r, w2)"
    by (cases "load_inventory ''inventory.yml'' (after_setup w)")
  have "fst (load_inventory ''inventory.yml'' w) = r"
    using load_inventory_fst [OF s, of "''inventory.yml''"] l by simp
  moreover have "main rp w =
     (case r of Inl e \<Rightarrow> (Inl e, w2)
      | Inr devices \<Rightarrow>
          main_with_devices rp \<lparr>path_root = [], path_parts = [''configs'']\<rparr> devices w2)"
    by (cases r) (simp_all add: main_def Let_def e l)
  ultimately show ?thesis
    using l True by (cases r) simp_all
qed

lemma main_configs_is_file:
  assumes "cwd w @ [''configs''] \<notin> dirs w" and "files w (cwd w @ [''configs'']) = Some t"
  shows "fst (main rp w) = Inl FileExistsError \<and> files (snd (main rp w)) = files w"
proof -
  have "\<not> (cwd w @ [''configs''] \<in> dirs w \<or> files w (cwd w @ [''configs'']) = None)"
    using assms by simp
  then show ?thesis
    by (simp only: main_eq if_not_P) simp
qed

lemma main_with_devices_falsy:
  "\<not> py_truthy devices \<Longrightarrow>
     main_with_devices rp out devices w =
       (Inr (), w\<lparr>console := console w @ [''No devices found in inventory. Exiting.'']\<rparr>)"
  by (simp add: main_with_devices_def py_print_def)

text \<open>
  The loop over a whole inventory: device types change no file; names without a slash are
  all written into the output directory when it exists.
\<close>

lemma device_loop_type_irrelevant:
  assumes "list_all2 (\<lambda>a b. \<exists>ka kb. a = PDict ka \<and> b = PDict kb
              \<and> list_all (\<lambda>k. k = PStr ''type'' \<or> map_of ka k = map_of kb k)
                    (map fst ka @ map fst kb)) ds1 ds2"
    and "cwd w1 = cwd w2" and "dirs w1 = dirs w2" and "files w1 = files w2"
  shows "fst (device_loop rp out ds1 w1) = fst (device_loop rp out ds2 w2)
       \<and> files (snd (device_loop rp out ds1 w1)) = files (snd (device_loop rp out ds2 w2))
       \<and> dirs (snd (device_loop rp out ds1 w1)) = dirs (snd (device_loop rp out ds2 w2))
       \<and> cwd (snd (device_loop rp out ds1 w1)) = cwd (snd (device_loop rp out ds2 w2))"
  using assms
proof (induction arbitrary: w1 w2 rule: list_all2_induct)
  case Nil
  then show ?case by simp
next
  case (Cons a ds1 b ds2)
  from Cons.hyps(1) obtain ka kb where ab: "a = PDict ka" "b = PDict kb"
    and k: "list_all (\<lambda>k. k = PStr ''type'' \<or> map_of ka k = map_of kb k)
              (map fst ka @ map fst kb)"
    by blast
  have n: "map_of ka (PStr ''name'') = map_of kb (PStr ''name'')"
    using k by (rule same_name_value)
  note p = process_device_files [OF Cons.prems n, of rp out]
  obtain r1 v1 where e1: "process_device rp out (PDict ka) w1 = (r1, v1)"
    by (cases "process_device rp out (PDict ka) w1")
  obtain r2 v2 where e2: "process_device rp out (PDict kb) w2 = (r2, v2)"
    by (cases "process_device rp out (PDict kb) w2")
  have r: "r1 = r2" and v: "cwd v1 = cwd v2" "dirs v1 = dirs v2" "files v1 = files v2"
    using p e1 e2 by simp_all
  show ?case
  proof (cases r1)
    case (Inl e)
    then show ?thesis using ab e1 e2 r v by simp
  next
    case (Inr u)
    then show ?thesis using ab e1 e2 r Cons.IH [OF v] by simp
  qed
qed



text \<open>
  A name with a slash in it points into a directory that nobody has made: \<^verbatim>\<open>open\<close> raises
  \<^verbatim>\<open>FileNotFoundError\<close>, which ends the run, and the devices after it are not processed.
\<close>

lemma main_with_devices_first_fails:
  assumes "fst (process_device rp out d
             (py_print (''Found '' @ str_nat (Suc (length ds)) @ '' device(s) in inventory'') w))
           = Inl e"
  shows "main_with_devices rp out (PList (d # ds)) w =
           (Inl e, snd (process_device rp out d
             (py_print (''Found '' @ str_nat (Suc (length ds)) @ '' device(s) in inventory'') w)))"
proof -
  obtain r v where p: "process_device rp out d
      (py_print (''Found '' @ str_nat (Suc (length ds)) @ '' device(s) in inventory'') w) = (r, v)"
    by (cases "process_device rp out d
      (py_print (''Found '' @ str_nat (Suc (length ds)) @ '' device(s) in inventory'') w)")
  then have "r = Inl e" using assms by simp
  then show ?thesis
    using p by (simp add: main_with_devices_def py_truthy_def py_len_def py_iter_def Let_def)
qed

lemma slash_name_aborts_run:
  "fst (main_with_devices (\<lambda>v. []) (parse_path ''configs'')
          (PList [PDict [(PStr ''name'', PStr ''a/b'')], PDict [(PStr ''name'', PStr ''sw2'')]])
          (after_setup initial_world)) = Inl FileNotFoundError
   \<and> files (snd (main_with_devices (\<lambda>v. []) (parse_path ''configs'')
          (PList [PDict [(PStr ''name'', PStr ''a/b'')], PDict [(PStr ''name'', PStr ''sw2'')]])
          (after_setup initial_world))) = files (after_setup initial_world)"
proof -
  let ?w = "py_print (''Found '' @ str_nat (Suc (length [PDict [(PStr ''name'', PStr ''sw2'')]]))
                        @ '' device(s) in inventory'') (after_setup initial_world)"
  have c: "cwd ?w = [''home'', ''ops'']"
    and d: "dirs ?w = {[''home'', ''ops'', ''configs''], [''home''], [''home'', ''ops''], [''tmp'']}"
    and f: "files ?w = (\<lambda>p. None)"
    by (simp_all add: py_print_def after_setup_initial)
  have g: "write_target w (path_div (parse_path ''configs'') (''a/b'' @ ''_vlan_config.txt''))
           = Inl FileNotFoundError"
    if "cwd w = [''home'', ''ops'']"
      and "dirs w = {[''home'', ''ops'', ''configs''], [''home''], [''home'', ''ops''], [''tmp'']}"
      and "files w = (\<lambda>p. None)" for w
    using that
    by (simp add: write_target_def start_of_def path_div_def parse_path_def splitroot_def)
  have t: "write_target ?w (path_div (parse_path ''configs'') (''a/b'' @ ''_vlan_config.txt''))
           = Inl FileNotFoundError"
    using c d f by (rule g)
  have k: "map_of [(PStr ''name'', PStr ''a/b'')] (PStr ''name'') = Some (PStr ''a/b'')"
    by simp
  have n: "py_format (\<lambda>v. []) (PStr ''a/b'') = ''a/b''"
    by (simp add: py_format_def)
  have p1: "fst (process_device (\<lambda>v. []) (parse_path ''configs'')
                  (PDict [(PStr ''name'', PStr ''a/b'')]) ?w) = Inl FileNotFoundError"
    by (simp only: process_device_dict [OF k] n t) simp
  have p2: "files (snd (process_device (\<lambda>v. []) (parse_path ''configs'')
                  (PDict [(PStr ''name'', PStr ''a/b'')]) ?w)) = (\<lambda>p. None)"
    by (simp only: process_device_dict [OF k] n t) (simp add: py_print_def after_setup_initial)
  note m = main_with_devices_first_fails [OF p1]
  have r1: "fst (main_with_devices (\<lambda>v. []) (parse_path ''configs'')
          (PList [PDict [(PStr ''name'', PStr ''a/b'')], PDict [(PStr ''name'', PStr ''sw2'')]])
          (after_setup initial_world)) = Inl FileNotFoundError"
    by (simp only: m fst_conv)
  have r2: "files (snd (main_with_devices (\<lambda>v. []) (parse_path ''configs'')
          (PList [PDict [(PStr ''name'', PStr ''a/b'')], PDict [(PStr ''name'', PStr ''sw2'')]])
          (after_setup initial_world))) = (\<lambda>p. None)"
    by (simp only: m snd_conv p2)
  show ?thesis
    by (simp only: r1 r2 after_setup_initial(3) simp_thms)
qed


section \<open>Properties of the loader, the orchestrator and the sink\<close>

text \<open>
  C5: a missing file, a malformed document and a document without a \<^verbatim>\<open>devices\<close> key all
  give an empty device sequence and no crash. The first two hold, and so does the third for
  a document that is a dict (\<open>load_inventory_handled\<close>). An empty inventory file is a
  document without a \<^verbatim>\<open>devices\<close> key too: \<^verbatim>\<open>yaml.safe_load\<close> returns \<^verbatim>\<open>None\<close> for
  it, \<^verbatim>\<open>None.get\<close> raises \<^verbatim>\<open>AttributeError\<close>, neither handler catches it, and it
  leaves \<^verbatim>\<open>main\<close> (which, when \<^verbatim>\<open>configs\<close> is a regular file, has already ended
  with \<^verbatim>\<open>FileExistsError\<close>).
\<close>

theorem load_inventory_empty_document_raises:
  "load_inventory f (w\<lparr>source := (\<lambda>p. Parsed PNone)\<rparr>)
     = (Inl AttributeError, w\<lparr>source := (\<lambda>p. Parsed PNone)\<rparr>)
   \<and> fst (main rp (w\<lparr>source := (\<lambda>p. Parsed PNone)\<rparr>))
       = (if cwd w @ [''configs''] \<in> dirs w \<or> files w (cwd w @ [''configs'']) = None
          then Inl AttributeError else Inl FileExistsError)
   \<and> fst (load_inventory f (w\<lparr>source := (\<lambda>p. Parsed (PList xs))\<rparr>)) = Inl AttributeError
   \<and> fst (load_inventory f (w\<lparr>source := (\<lambda>p. Parsed (PStr s))\<rparr>)) = Inl AttributeError"
  by (simp add: main_eq load_inventory_def)

text \<open>
  C6: when the device sequence is empty (or any value that \<^verbatim>\<open>not\<close> takes for false), the
  orchestrator prints the no-devices line and returns normally, having generated and
  written nothing; this part of \<^verbatim>\<open>main\<close> touches no file in any world. The whole of
  \<^verbatim>\<open>main\<close> returns normally with the files unchanged and that line printed last when
  the loader returns such a value and \<^verbatim>\<open>configs\<close> is not a regular file, so that the
  directory step before the loader succeeds (\<open>main_configs_is_file\<close> is the other case).
\<close>

theorem no_devices_early_exit:
  assumes "\<not> py_truthy devices"
  shows "main_with_devices rp out devices w' =
           (Inr (), w'\<lparr>console := console w' @ [''No devices found in inventory. Exiting.'']\<rparr>)
       \<and> (fst (load_inventory ''inventory.yml'' w) = Inr devices
            \<and> (cwd w @ [''configs''] \<in> dirs w \<or> files w (cwd w @ [''configs'']) = None)
          \<longrightarrow> fst (main rp w) = Inr ()
              \<and> files (snd (main rp w)) = files w
              \<and> last (console (snd (main rp w))) = ''No devices found in inventory. Exiting.'')"
proof -
  have a: "main_with_devices rp out devices w' =
           (Inr (), w'\<lparr>console := console w' @ [''No devices found in inventory. Exiting.'']\<rparr>)"
    using assms by (rule main_with_devices_falsy)
  have b: "fst (main rp w) = Inr ()
              \<and> files (snd (main rp w)) = files w
              \<and> last (console (snd (main rp w))) = ''No devices found in inventory. Exiting.''"
    if l: "fst (load_inventory ''inventory.yml'' w) = Inr devices"
      and c: "cwd w @ [''configs''] \<in> dirs w \<or> files w (cwd w @ [''configs'']) = None"
  proof -
    let ?w2 = "snd (load_inventory ''inventory.yml'' (after_setup w))"
    have "main rp w =
            main_with_devices rp \<lparr>path_root = [], path_parts = [''configs'']\<rparr> devices ?w2"
      by (simp only: main_eq if_P [OF c] l sum.case)
    then have m: "main rp w =
        (Inr (), ?w2\<lparr>console := console ?w2 @ [''No devices found in inventory. Exiting.'']\<rparr>)"
      using assms by (simp add: main_with_devices_falsy)
    have f: "files ?w2 = files w"
      by (simp add: load_inventory_frame after_setup_def)
    show ?thesis
      by (simp add: m f)
  qed
  from a b show ?thesis by blast
qed

theorem no_devices_early_exit_witness:
  "\<not> py_truthy (PList [])
   \<and> fst (load_inventory ''inventory.yml'' initial_world) = Inr (PList [])
   \<and> (cwd initial_world @ [''configs''] \<in> dirs initial_world
        \<or> files initial_world (cwd initial_world @ [''configs'']) = None)
   \<and> fst (main (\<lambda>v. []) initial_world) = Inr ()
   \<and> files (snd (main (\<lambda>v. []) initial_world)) = files initial_world
   \<and> console (snd (main (\<lambda>v. []) initial_world)) =
       [''VLAN Configuration Generator'', ''Loading inventory...'',
        check_mark @ '' Output directory ensured: configs'',
        ''Error: Inventory file '' @ [CHR 0x27] @ ''inventory.yml'' @ [CHR 0x27] @ '' not found'',
        ''No devices found in inventory. Exiting.'']"
proof -
  have a: "fst (load_inventory ''inventory.yml'' initial_world) = Inr (PList [])"
    by (simp add: load_inventory_def initial_world_def)
  have b: "\<not> py_truthy (PList [])"
    by (simp add: py_truthy_def)
  have d: "cwd initial_world @ [''configs''] \<in> dirs initial_world
        \<or> files initial_world (cwd initial_world @ [''configs'']) = None"
    by (simp add: initial_world_def)
  have c: "console (snd (main (\<lambda>v. []) initial_world)) =
       [''VLAN Configuration Generator'', ''Loading inventory...'',
        check_mark @ '' Output directory ensured: configs'',
        ''Error: Inventory file '' @ [CHR 0x27] @ ''inventory.yml'' @ [CHR 0x27] @ '' not found'',
        ''No devices found in inventory. Exiting.'']"
    by (simp only: main_eq if_P [OF d])
       (simp add: load_inventory_def initial_world_def after_setup_def py_print_def
          main_with_devices_falsy b)
  from no_devices_early_exit [OF b, where w = initial_world and rp = "\<lambda>v. []"] a b c d
  show ?thesis
    by blast
qed




text \<open>
  C8: two device records that agree on every key but \<^verbatim>\<open>type\<close> (declared or absent) give
  the same result, the same files, and the same console output after the announcement
  line, which is the only place where the type appears. This holds whether the file can be
  written or not.
\<close>

theorem device_type_not_in_output:
  assumes "list_all (\<lambda>k. k = PStr ''type'' \<or> map_of ka k = map_of kb k) (map fst ka @ map fst kb)"
  shows "fst (process_device rp out (PDict ka) w) = fst (process_device rp out (PDict kb) w)
       \<and> files (snd (process_device rp out (PDict ka) w))
         = files (snd (process_device rp out (PDict kb) w))
       \<and> tl (drop (length (console w)) (console (snd (process_device rp out (PDict ka) w))))
         = tl (drop (length (console w)) (console (snd (process_device rp out (PDict kb) w))))"
proof -
  have n: "map_of ka (PStr ''name'') = map_of kb (PStr ''name'')"
    using assms by (rule same_name_value)
  have f: "fst (process_device rp out (PDict ka) w) = fst (process_device rp out (PDict kb) w)
       \<and> files (snd (process_device rp out (PDict ka) w))
         = files (snd (process_device rp out (PDict kb) w))"
    using process_device_files [OF refl refl refl n, of rp out w] by blast
  have c: "tl (drop (length (console w)) (console (snd (process_device rp out (PDict ka) w))))
         = tl (drop (length (console w)) (console (snd (process_device rp out (PDict kb) w))))"
  proof (cases "map_of kb (PStr ''name'')")
    case None
    then show ?thesis using n by (simp add: process_device_no_name)
  next
    case (Some v)
    show ?thesis
    proof (cases "write_target w (path_div out (py_format rp v @ ''_vlan_config.txt''))")
      case (Inl e)
      then show ?thesis using n Some by (simp add: process_device_dict)
    next
      case (Inr loc)
      then show ?thesis using n Some by (simp add: process_device_dict)
    qed
  qed
  from f c show ?thesis by blast
qed

theorem device_type_not_in_output_witness:
  "list_all (\<lambda>k. k = PStr ''type'' \<or>
        map_of [(PStr ''name'', PStr ''sw1''), (PStr ''type'', PStr ''arista_eos'')] k
        = map_of [(PStr ''name'', PStr ''sw1'')] k)
      (map fst [(PStr ''name'', PStr ''sw1''), (PStr ''type'', PStr ''arista_eos'')]
       @ map fst [(PStr ''name'', PStr ''sw1'')])
   \<and> files (snd (process_device (\<lambda>v. []) (parse_path ''configs'')
         (PDict [(PStr ''name'', PStr ''sw1''), (PStr ''type'', PStr ''arista_eos'')])
         (after_setup initial_world)))
     = files (snd (process_device (\<lambda>v. []) (parse_path ''configs'')
         (PDict [(PStr ''name'', PStr ''sw1'')]) (after_setup initial_world)))
   \<and> fst (process_device (\<lambda>v. []) (parse_path ''configs'')
         (PDict [(PStr ''name'', PStr ''sw1'')]) (after_setup initial_world)) = Inr ()
   \<and> console (snd (process_device (\<lambda>v. []) (parse_path ''configs'')
         (PDict [(PStr ''name'', PStr ''sw1''), (PStr ''type'', PStr ''arista_eos'')])
         (after_setup initial_world))) ! 3
       = [CHR 0x0A] @ ''Generating VLANs for: sw1 (arista_eos)''
   \<and> console (snd (process_device (\<lambda>v. []) (parse_path ''configs'')
         (PDict [(PStr ''name'', PStr ''sw1'')]) (after_setup initial_world))) ! 3
       = [CHR 0x0A] @ ''Generating VLANs for: sw1 (cisco_ios)''"
proof -
  have h: "list_all (\<lambda>k. k = PStr ''type'' \<or>
        map_of [(PStr ''name'', PStr ''sw1''), (PStr ''type'', PStr ''arista_eos'')] k
        = map_of [(PStr ''name'', PStr ''sw1'')] k)
      (map fst [(PStr ''name'', PStr ''sw1''), (PStr ''type'', PStr ''arista_eos'')]
       @ map fst [(PStr ''name'', PStr ''sw1'')])"
    by simp
  have t: "write_target (after_setup initial_world)
             (path_div (parse_path ''configs'') (''sw1'' @ ''_vlan_config.txt''))
           = Inr [''home'', ''ops'', ''configs'', ''sw1_vlan_config.txt'']"
    using artifact_path [of "''sw1''" "parse_path ''configs''"]
    by (simp add: parse_path_configs write_target_def start_of_def after_setup_initial)
  have l: "length (console (after_setup initial_world)) = 3"
    by (simp add: after_setup_def initial_world_def)
  have a: "console (snd (process_device (\<lambda>v. []) (parse_path ''configs'')
         (PDict [(PStr ''name'', PStr ''sw1''), (PStr ''type'', PStr ''arista_eos'')])
         (after_setup initial_world))) ! 3
       = [CHR 0x0A] @ ''Generating VLANs for: sw1 (arista_eos)''"
    using t l by (simp add: process_device_dict py_format_def nth_append)
  have b: "console (snd (process_device (\<lambda>v. []) (parse_path ''configs'')
         (PDict [(PStr ''name'', PStr ''sw1'')]) (after_setup initial_world))) ! 3
       = [CHR 0x0A] @ ''Generating VLANs for: sw1 (cisco_ios)''"
    using t l by (simp add: process_device_dict py_format_def nth_append)
  have r: "fst (process_device (\<lambda>v. []) (parse_path ''configs'')
         (PDict [(PStr ''name'', PStr ''sw1'')]) (after_setup initial_world)) = Inr ()"
    using t by (simp add: process_device_dict py_format_def)
  have "files (snd (process_device (\<lambda>v. []) (parse_path ''configs'')
         (PDict [(PStr ''name'', PStr ''sw1''), (PStr ''type'', PStr ''arista_eos'')])
         (after_setup initial_world)))
     = files (snd (process_device (\<lambda>v. []) (parse_path ''configs'')
         (PDict [(PStr ''name'', PStr ''sw1'')]) (after_setup initial_world)))"
    using device_type_not_in_output [OF h, of "\<lambda>v. []" "parse_path ''configs''"
        "after_setup initial_world"]
    by blast
  with h a b r show ?thesis by blast
qed

text \<open>
  C9: with the empty string as device name the generator returns its list for every range,
  the header being the comment prefix with nothing after it, and the file name derived is
  \<^verbatim>\<open>configs/_vlan_config.txt\<close>. Where \<^verbatim>\<open>configs\<close> exists and no directory has that file
  name, the sink writes the file and the loop body returns normally.
\<close>

theorem empty_device_name:
  "generate_vlan_configurations [] (s, e) =
     [''! VLAN Configuration for '', ''configure terminal''] @
     concat (map vlan_block [s..e]) @ [''end'', ''write memory'', '''']
   \<and> path_div (parse_path ''configs'') ([] @ ''_vlan_config.txt'')
       = \<lparr>path_root = [], path_parts = [''configs'', ''_vlan_config.txt'']\<rparr>
   \<and> path_str (path_div (parse_path ''configs'') ([] @ ''_vlan_config.txt''))
       = ''configs/_vlan_config.txt''
   \<and> (cwd w @ [''configs''] \<in> dirs w \<and> cwd w @ [''configs'', ''_vlan_config.txt''] \<notin> dirs w
        \<longrightarrow>
        save_configuration [] cfg (parse_path ''configs'') w =
          (Inr \<lparr>path_root = [], path_parts = [''configs'', ''_vlan_config.txt'']\<rparr>,
           w\<lparr>files := (files w)(cwd w @ [''configs'', ''_vlan_config.txt'']
                                   \<mapsto> str_join [CHR 0x0A] cfg)\<rparr>)
        \<and> fst (process_device rp (parse_path ''configs'') (PDict [(PStr ''name'', PStr [])]) w)
            = Inr ())"
proof -
  have a: "CHR ''/'' \<notin> set []" by simp
  have p: "path_div (parse_path ''configs'') ([] @ ''_vlan_config.txt'')
       = \<lparr>path_root = [], path_parts = [''configs'', ''_vlan_config.txt'']\<rparr>"
    using artifact_path [OF a, of "parse_path ''configs''"] by (simp add: parse_path_configs)
  have q: "path_str (path_div (parse_path ''configs'') ([] @ ''_vlan_config.txt''))
       = ''configs/_vlan_config.txt''"
    by (simp only: p) (simp add: path_str_def)
  have g: "generate_vlan_configurations [] (s, e) =
     [''! VLAN Configuration for '', ''configure terminal''] @
     concat (map vlan_block [s..e]) @ [''end'', ''write memory'', '''']"
    by (simp add: generate_unfold)
  have f: "save_configuration [] cfg (parse_path ''configs'') w =
          (Inr \<lparr>path_root = [], path_parts = [''configs'', ''_vlan_config.txt'']\<rparr>,
           w\<lparr>files := (files w)(cwd w @ [''configs'', ''_vlan_config.txt'']
                                   \<mapsto> str_join [CHR 0x0A] cfg)\<rparr>)
        \<and> fst (process_device rp (parse_path ''configs'') (PDict [(PStr ''name'', PStr [])]) w)
            = Inr ()"
    if h: "cwd w @ [''configs''] \<in> dirs w \<and> cwd w @ [''configs'', ''_vlan_config.txt''] \<notin> dirs w"
  proof -
    have t: "write_target w (path_div (parse_path ''configs'') ([] @ ''_vlan_config.txt''))
             = Inr (cwd w @ [''configs'', ''_vlan_config.txt''])"
      using h by (simp only: p) (simp add: write_target_def start_of_def)
    have s1: "save_configuration [] cfg (parse_path ''configs'') w =
          (Inr \<lparr>path_root = [], path_parts = [''configs'', ''_vlan_config.txt'']\<rparr>,
           w\<lparr>files := (files w)(cwd w @ [''configs'', ''_vlan_config.txt'']
                                   \<mapsto> str_join [CHR 0x0A] cfg)\<rparr>)"
      using t p by (simp add: save_configuration_eq)
    have s2: "fst (process_device rp (parse_path ''configs'') (PDict [(PStr ''name'', PStr [])]) w)
            = Inr ()"
      using t by (simp add: process_device_dict py_format_def)
    from s1 s2 show ?thesis by blast
  qed
  from g p q f show ?thesis by blast
qed

theorem empty_device_name_witness:
  "cwd (after_setup initial_world) @ [''configs''] \<in> dirs (after_setup initial_world)
   \<and> cwd (after_setup initial_world) @ [''configs'', ''_vlan_config.txt'']
        \<notin> dirs (after_setup initial_world)
   \<and> files (snd (save_configuration [] [''end'', '''']
                    (parse_path ''configs'') (after_setup initial_world)))
        [''home'', ''ops'', ''configs'', ''_vlan_config.txt'']
       = Some (''end'' @ [CHR 0x0A])
   \<and> fst (process_device (\<lambda>v. []) (parse_path ''configs'') (PDict [(PStr ''name'', PStr [])])
            (after_setup initial_world)) = Inr ()"
proof -
  have a: "cwd (after_setup initial_world) @ [''configs''] \<in> dirs (after_setup initial_world)"
    by (simp add: after_setup_initial)
  have b: "cwd (after_setup initial_world) @ [''configs'', ''_vlan_config.txt'']
        \<notin> dirs (after_setup initial_world)"
    by (simp add: after_setup_initial)
  note t = empty_device_name [where w = "after_setup initial_world" and cfg = "[''end'', '''']"
      and rp = "\<lambda>v. []"]
  have s: "save_configuration [] [''end'', ''''] (parse_path ''configs'') (after_setup initial_world) =
          (Inr \<lparr>path_root = [], path_parts = [''configs'', ''_vlan_config.txt'']\<rparr>,
           (after_setup initial_world)\<lparr>files := (files (after_setup initial_world))
              (cwd (after_setup initial_world) @ [''configs'', ''_vlan_config.txt'']
                 \<mapsto> str_join [CHR 0x0A] [''end'', ''''])\<rparr>)"
    using t a b by blast
  have c: "files (snd (save_configuration [] [''end'', '''']
                    (parse_path ''configs'') (after_setup initial_world)))
        [''home'', ''ops'', ''configs'', ''_vlan_config.txt'']
       = Some (''end'' @ [CHR 0x0A])"
    by (simp only: s) (simp add: after_setup_initial)
  have d: "fst (process_device (\<lambda>v. []) (parse_path ''configs'') (PDict [(PStr ''name'', PStr [])])
            (after_setup initial_world)) = Inr ()"
    using t a b by blast
  from a b c d show ?thesis by blast
qed



end
